theory Spec2Isabelle
  imports Main "HOL-Library.Sublist"
begin

section \<open>JavaScript values and objects\<close>

text \<open>
  The repository is a JavaScript job-board API. Its data-access classes \<open>Company\<close> and
  \<open>Job\<close> build SQL statements with the helper \<open>sqlForPartialUpdate\<close> and with two
  private where-builders, and send them to a PostgreSQL client.

  Errors are values: every \<open>throw\<close> of the source is an \<open>Inl\<close> of the type below.
  \<open>TypeError\<close> is the error the JavaScript engine itself raises when a property of
  \<open>undefined\<close> is written; \<open>DatabaseError\<close> is whatever the database client rejects
  a statement with.
\<close>

datatype error =
    BadRequestError string
  | NotFoundError string
  | TypeError
  | DatabaseError string

text \<open>
  Values are the data a request carries (JSON bodies, query strings) together with the
  promise an unawaited \<open>async\<close> call returns. Numbers are the integers salaries,
  employee counts and primary keys are. An object is the list of its own enumerable
  properties in the order \<open>Object.keys\<close> lists them, which for names that are not array
  indices is insertion order. Functions and names inherited from \<open>Object.prototype\<close>
  are outside this model.
\<close>

datatype jsval =
    Undefined
  | Null
  | Bool bool
  | Num int
  | Str string
  | Arr "jsval list"
  | Obj "(string \<times> jsval) list"
  | Promise "error + (string \<times> jsval) list list"

type_synonym jsobj = "(string \<times> jsval) list"

definition nl :: string where
  "nl = [CHR 0x0A]"

definition digit_char :: "nat \<Rightarrow> char" where
  "digit_char d = ''0123456789'' ! (d mod 10)"

text \<open>Decimal rendering of an array length or index, as string concatenation does it.\<close>

function string_of_nat :: "nat \<Rightarrow> string" where
  "string_of_nat n =
     (if n < 10 then [digit_char n] else string_of_nat (n div 10) @ [digit_char (n mod 10)])"
  by pat_completeness auto
termination
  by (relation "measure id") auto

declare string_of_nat.simps [simp del]

text \<open>\<open>Array.prototype.join\<close> on an array of strings.\<close>

fun js_join :: "string \<Rightarrow> string list \<Rightarrow> string" where
  "js_join sep [] = []"
| "js_join sep [x] = x"
| "js_join sep (x # y # ys) = x @ sep @ js_join sep (y # ys)"

text \<open>The string a template literal interpolates for \<open>${v}\<close>.\<close>

fun js_toString :: "jsval \<Rightarrow> string" where
  "js_toString Undefined = ''undefined''"
| "js_toString Null = ''null''"
| "js_toString (Bool b) = (if b then ''true'' else ''false'')"
| "js_toString (Num n) =
     (if n < 0 then ''-'' @ string_of_nat (nat (- n)) else string_of_nat (nat n))"
| "js_toString (Str s) = s"
| "js_toString (Arr xs) =
     js_join '','' (map (\<lambda>x. if x = Undefined \<or> x = Null then [] else js_toString x) xs)"
| "js_toString (Obj ps) = ''[object Object]''"
| "js_toString (Promise r) = ''[object Promise]''"

fun js_truthy :: "jsval \<Rightarrow> bool" where
  "js_truthy Undefined = False"
| "js_truthy Null = False"
| "js_truthy (Bool b) = b"
| "js_truthy (Num n) = (n \<noteq> 0)"
| "js_truthy (Str s) = (s \<noteq> [])"
| "js_truthy (Arr xs) = True"
| "js_truthy (Obj ps) = True"
| "js_truthy (Promise r) = True"

text \<open>\<open>a || b\<close>\<close>

definition js_or :: "jsval \<Rightarrow> jsval \<Rightarrow> jsval" where
  "js_or a b = (if js_truthy a then a else b)"

definition Object_keys :: "jsobj \<Rightarrow> string list" where
  "Object_keys obj = map fst obj"

definition Object_values :: "jsobj \<Rightarrow> jsval list" where
  "Object_values obj = map snd obj"

text \<open>\<open>obj[k]\<close>: the property, \<open>undefined\<close> when the object has none of that name.\<close>

definition js_get :: "jsobj \<Rightarrow> string \<Rightarrow> jsval" where
  "js_get obj k = (case map_of obj k of None \<Rightarrow> Undefined | Some v \<Rightarrow> v)"

text \<open>\<open>obj[k] = v\<close>: an existing property keeps its place, a new one goes last.\<close>

fun js_set :: "jsobj \<Rightarrow> string \<Rightarrow> jsval \<Rightarrow> jsobj" where
  "js_set [] k v = [(k, v)]"
| "js_set ((k', v') # ps) k v = (if k' = k then (k, v) # ps else (k', v') # js_set ps k v)"

text \<open>\<open>rows[0]\<close>: \<open>None\<close> stands for \<open>undefined\<close>.\<close>

fun js_first :: "'a list \<Rightarrow> 'a option" where
  "js_first [] = None"
| "js_first (x # xs) = Some x"

text \<open>\<open>xs.map((x, idx) => f(x, idx))\<close>, the index counted up from the given start.\<close>

fun js_map_index :: "('a \<Rightarrow> nat \<Rightarrow> 'b) \<Rightarrow> 'a list \<Rightarrow> nat \<Rightarrow> 'b list" where
  "js_map_index f [] idx = []"
| "js_map_index f (x # xs) idx = f x idx # js_map_index f xs (Suc idx)"

section \<open>helpers/sql.js: the partial-update builder\<close>

record update_fragment =
  setCols :: string
  values' :: "jsval list"

definition sqlForPartialUpdate :: "jsobj \<Rightarrow> jsobj \<Rightarrow> error + update_fragment" where
  \<open>sqlForPartialUpdate dataToUpdate jsToSql =
     (let keys = Object_keys dataToUpdate in
      if length keys = 0 then Inl (BadRequestError ''No data'')
      else
        let cols = js_map_index
              (\<lambda>colName idx.
                 ''"'' @ js_toString (js_or (js_get jsToSql colName) (Str colName)) @ ''"=$''
                 @ string_of_nat (idx + 1))
              keys 0
        in Inr \<lparr>setCols = js_join '', '' cols, values' = Object_values dataToUpdate\<rparr>)\<close>

section \<open>The where-builders of models/company.js and models/job.js\<close>

record where_statement =
  whereClause :: string
  whereValues :: "jsval list"

text \<open>
  Both builders keep two arrays, the clauses and the values. A criterion with a parameter
  pushes its value and then a clause that names the new length of the values:
  \<^verbatim>\<open>whereValues.push(v); whereClause.push(`<template>$${whereValues.length}`)\<close>.
\<close>

type_synonym where_arrays = "string list \<times> jsval list"

definition push_param :: "string \<Rightarrow> jsval \<Rightarrow> where_arrays \<Rightarrow> where_arrays" where
  "push_param template v acc =
     (let whereValues = snd acc @ [v]
      in (fst acc @ [template @ string_of_nat (length whereValues)], whereValues))"

definition push_clause :: "string \<Rightarrow> where_arrays \<Rightarrow> where_arrays" where
  "push_clause clause acc = (fst acc @ [clause], snd acc)"

definition Company_sqlWhereBuilder :: "jsval \<Rightarrow> jsval \<Rightarrow> jsval \<Rightarrow> where_statement" where
  "Company_sqlWhereBuilder name min' max' =
     (let acc = ([], []);
          acc = (if name \<noteq> Undefined
                 then push_param ''name ILIKE $'' (Str (''%'' @ js_toString name @ ''%'')) acc
                 else acc);
          acc = (if min' \<noteq> Undefined then push_param ''num_employees >= $'' min' acc else acc);
          acc = (if max' \<noteq> Undefined then push_param ''num_employees <= $'' max' acc else acc)
      in \<lparr>whereClause = ''WHERE '' @ js_join '' AND '' (fst acc), whereValues = snd acc\<rparr>)"

definition Job_sqlWhereBuilder ::
    "jsval \<Rightarrow> jsval \<Rightarrow> jsval \<Rightarrow> jsval \<Rightarrow> where_statement" where
  "Job_sqlWhereBuilder minSalary hasEquity title companyHandle =
     (let acc = ([], []);
          acc = (if minSalary \<noteq> Undefined then push_param ''salary >= $'' minSalary acc
                 else acc);
          acc = (if hasEquity = Bool True then push_clause ''equity > 0'' acc else acc);
          acc = (if title \<noteq> Undefined
                 then push_param ''title ILIKE $'' (Str (''%'' @ js_toString title @ ''%'')) acc
                 else acc);
          acc = (if companyHandle \<noteq> Undefined
                 then push_param ''company_handle ILIKE $''
                        (Str (''%'' @ js_toString companyHandle @ ''%'')) acc
                 else acc)
      in \<lparr>whereClause = ''WHERE '' @ js_join '' AND '' (fst acc), whereValues = snd acc\<rparr>)"

section \<open>The database client\<close>

text \<open>
  The database engine is not part of the repository: \<open>db.query(text, params)\<close> is a
  parameter of the model. It receives the statement text and the bound values, and
  answers with the rows or with the message it rejects the statement with, and with the
  store as the statement leaves it.
\<close>

type_synonym 'st db = "string \<Rightarrow> jsval list \<Rightarrow> 'st \<Rightarrow> (string + jsobj list) \<times> 'st"

definition db_query ::
    "'st db \<Rightarrow> string \<Rightarrow> jsval list \<Rightarrow> 'st \<Rightarrow> (error + jsobj list) \<times> 'st" where
  "db_query db text params s =
     (case db text params s of
        (Inl msg, s') \<Rightarrow> (Inl (DatabaseError msg), s')
      | (Inr rows, s') \<Rightarrow> (Inr rows, s'))"

section \<open>models/job.js\<close>

definition Job_findAll_sql :: "string \<Rightarrow> string" where
  \<open>Job_findAll_sql whereClause' =
     ''SELECT id,'' @ nl @ ''                        title,'' @ nl
     @ ''                        salary,'' @ nl @ ''                        equity,'' @ nl
     @ ''                        company_handle AS "companyHandle"'' @ nl
     @ ''                FROM jobs'' @ nl @ ''                '' @ whereClause' @ nl
     @ ''                ORDER BY title''\<close>

text \<open>
  The argument of \<open>findAll\<close> is \<open>Some\<close> object, or \<open>None\<close> for a call without
  argument (anything that is not an \<open>instanceof Object\<close>).
\<close>

definition Job_findAll :: "'st db \<Rightarrow> jsobj option \<Rightarrow> 'st \<Rightarrow> (error + jsobj list) \<times> 'st" where
  "Job_findAll db filterBy s =
     (let whereStatement =
            (case filterBy of
               None \<Rightarrow> \<lparr>whereClause = [], whereValues = []\<rparr>
             | Some obj \<Rightarrow>
                 if length (Object_keys obj) > 0
                 then Job_sqlWhereBuilder (js_get obj ''minSalary'') (js_get obj ''hasEquity'')
                        (js_get obj ''title'') (js_get obj ''companyHandle'')
                 else \<lparr>whereClause = [], whereValues = []\<rparr>);
          query = Job_findAll_sql (whereClause whereStatement)
      in case db_query db query (whereValues whereStatement) s of
           (Inl e, s') \<Rightarrow> (Inl e, s')
         | (Inr rows, s') \<Rightarrow> (Inr rows, s'))"

definition Job_get_sql :: string where
  \<open>Job_get_sql =
     ''SELECT id,'' @ nl @ ''                  title,'' @ nl @ ''                  salary,'' @ nl
     @ ''                  equity,'' @ nl
     @ ''                  company_handle AS "companyHandle"'' @ nl
     @ ''           FROM jobs'' @ nl @ ''           WHERE id = $1''\<close>

definition Job_get :: "'st db \<Rightarrow> jsval \<Rightarrow> 'st \<Rightarrow> (error + jsobj) \<times> 'st" where
  "Job_get db id' s =
     (case db_query db Job_get_sql [id'] s of
        (Inl e, s') \<Rightarrow> (Inl e, s')
      | (Inr rows, s') \<Rightarrow>
          (case js_first rows of
             None \<Rightarrow> (Inl (NotFoundError (''There is no job with id: '' @ js_toString id')), s')
           | Some job \<Rightarrow> (Inr job, s')))"

definition Job_update_sql :: "string \<Rightarrow> string \<Rightarrow> string" where
  \<open>Job_update_sql setCols' idVarIdx =
     nl @ ''      UPDATE jobs '' @ nl @ ''      SET '' @ setCols' @ '' '' @ nl
     @ ''      WHERE id = '' @ idVarIdx @ '' '' @ nl @ ''      RETURNING id, '' @ nl
     @ ''                title, '' @ nl @ ''                salary, '' @ nl
     @ ''                equity,'' @ nl
     @ ''                company_handle AS "companyHandle"''\<close>

definition Job_update :: "'st db \<Rightarrow> jsval \<Rightarrow> jsobj \<Rightarrow> 'st \<Rightarrow> (error + jsobj) \<times> 'st" where
  "Job_update db id' data s =
     (case sqlForPartialUpdate data [] of
        Inl e \<Rightarrow> (Inl e, s)
      | Inr frag \<Rightarrow>
          (let idVarIdx = ''$'' @ string_of_nat (length (values' frag) + 1);
               querySql = Job_update_sql (setCols frag) idVarIdx
           in case db_query db querySql (values' frag @ [id']) s of
                (Inl e, s') \<Rightarrow> (Inl e, s')
              | (Inr rows, s') \<Rightarrow>
                  (case js_first rows of
                     None \<Rightarrow> (Inl (NotFoundError (''No job: '' @ js_toString id')), s')
                   | Some job \<Rightarrow> (Inr job, s'))))"

section \<open>models/company.js\<close>

definition Company_findAll_sql :: "string \<Rightarrow> string" where
  \<open>Company_findAll_sql whereClause' =
     ''SELECT handle,'' @ nl @ ''                name,'' @ nl @ ''                description,''
     @ nl @ ''                num_employees AS "numEmployees",'' @ nl
     @ ''                logo_url AS "logoUrl"'' @ nl @ ''           FROM companies'' @ nl
     @ ''           '' @ whereClause' @ nl @ ''           ORDER BY name''\<close>

definition Company_findAll ::
    "'st db \<Rightarrow> jsobj option \<Rightarrow> 'st \<Rightarrow> (error + jsobj list) \<times> 'st" where
  "Company_findAll db filterBy s =
     (let whereStatement =
            (case filterBy of
               None \<Rightarrow> \<lparr>whereClause = [], whereValues = []\<rparr>
             | Some obj \<Rightarrow>
                 if length (Object_keys obj) > 0
                 then Company_sqlWhereBuilder (js_get obj ''name'') (js_get obj ''minEmp'')
                        (js_get obj ''maxEmp'')
                 else \<lparr>whereClause = [], whereValues = []\<rparr>)
      in case db_query db (Company_findAll_sql (whereClause whereStatement))
                (whereValues whereStatement) s of
           (Inl e, s') \<Rightarrow> (Inl e, s')
         | (Inr rows, s') \<Rightarrow> (Inr rows, s'))"

definition Company_get_sql :: string where
  \<open>Company_get_sql =
     ''SELECT handle,'' @ nl @ ''                name,'' @ nl @ ''                description,''
     @ nl @ ''                num_employees AS "numEmployees",'' @ nl
     @ ''                logo_url AS "logoUrl"'' @ nl @ ''           FROM companies'' @ nl
     @ ''           WHERE handle = $1''\<close>

text \<open>
  \<open>Company.get\<close> reads the first row, calls \<open>Job.findAll\<close> without awaiting it (the
  statement is sent, the value kept is the promise), writes the promise into the
  property \<open>jobs\<close> of the row, and only then tests the row. Writing a property of
  \<open>undefined\<close> raises.
\<close>

definition Company_get :: "'st db \<Rightarrow> jsval \<Rightarrow> 'st \<Rightarrow> (error + jsobj) \<times> 'st" where
  "Company_get db handle s =
     (case db_query db Company_get_sql [handle] s of
        (Inl e, s1) \<Rightarrow> (Inl e, s1)
      | (Inr rows, s1) \<Rightarrow>
          (let company = js_first rows;
               (jobsResult, s2) = Job_findAll db (Some [(''companyHandle'', handle)]) s1;
               jobs = Promise jobsResult
           in case company of
                None \<Rightarrow> (Inl TypeError, s2)
              | Some row \<Rightarrow>
                  (let company = Some (js_set row ''jobs'' jobs)
                   in case company of
                        None \<Rightarrow> (Inl (NotFoundError (''No company: '' @ js_toString handle)), s2)
                      | Some c \<Rightarrow> (Inr c, s2))))"

definition Company_update_sql :: "string \<Rightarrow> string \<Rightarrow> string" where
  \<open>Company_update_sql setCols' handleVarIdx =
     nl @ ''      UPDATE companies'' @ nl @ ''      SET '' @ setCols' @ nl
     @ ''      WHERE handle = '' @ handleVarIdx @ nl @ ''      RETURNING handle, '' @ nl
     @ ''        name,'' @ nl @ ''        description,'' @ nl
     @ ''        num_employees AS "numEmployees",'' @ nl
     @ ''        logo_url AS "logoUrl"''\<close>

definition Company_jsToSql :: jsobj where
  "Company_jsToSql =
     [(''numEmployees'', Str ''num_employees''), (''logoUrl'', Str ''logo_url'')]"

definition Company_update :: "'st db \<Rightarrow> jsval \<Rightarrow> jsobj \<Rightarrow> 'st \<Rightarrow> (error + jsobj) \<times> 'st" where
  "Company_update db handle data s =
     (case sqlForPartialUpdate data Company_jsToSql of
        Inl e \<Rightarrow> (Inl e, s)
      | Inr frag \<Rightarrow>
          (let handleVarIdx = ''$'' @ string_of_nat (length (values' frag) + 1);
               querySql = Company_update_sql (setCols frag) handleVarIdx
           in case db_query db querySql (values' frag @ [handle]) s of
                (Inl e, s') \<Rightarrow> (Inl e, s')
              | (Inr rows, s') \<Rightarrow>
                  (case js_first rows of
                     None \<Rightarrow> (Inl (NotFoundError (''No company: '' @ js_toString handle)), s')
                   | Some company \<Rightarrow> (Inr company, s'))))"

section \<open>Reference definitions for the properties\<close>

subsection \<open>Column names and assignments\<close>

text \<open>
  The column name an assignment uses, read off the expression
  \<^verbatim>\<open>jsToSql[colName] || colName\<close>: the entry of the field map when there is one and it
  is truthy, the key itself otherwise.
\<close>

definition resolved_name :: "jsobj \<Rightarrow> string \<Rightarrow> string" where
  "resolved_name M k =
     (case map_of M k of
        None \<Rightarrow> k
      | Some v \<Rightarrow> if js_truthy v then js_toString v else k)"



text \<open>Reading a decimal numeral back, to state that positions are rendered faithfully.\<close>

definition digit_value :: "char \<Rightarrow> nat" where
  "digit_value c = of_char c - 48"

definition nat_of_string :: "string \<Rightarrow> nat" where
  "nat_of_string cs = foldl (\<lambda>a c. 10 * a + digit_value c) 0 cs"

subsection \<open>The specification's predicate builder\<close>

text \<open>
  Section 4.2 of the specification: walk a fixed list of criteria in order; an active
  criterion with a bound value takes the next parameter position, appends its template
  with the position substituted and appends its value; an active criterion without a
  value appends its clause only; an inactive criterion contributes nothing and takes no
  position. The clauses are joined with \<open>" AND "\<close> after \<open>"WHERE "\<close>.
\<close>

datatype criterion = Inactive | Flag string | Param string jsval

fun spec_buildWhere :: "criterion list \<Rightarrow> nat \<Rightarrow> string list \<times> jsval list" where
  "spec_buildWhere [] n = ([], [])"
| "spec_buildWhere (Inactive # cs) n = spec_buildWhere cs n"
| "spec_buildWhere (Flag clause # cs) n =
     (let r = spec_buildWhere cs n in (clause # fst r, snd r))"
| "spec_buildWhere (Param template v # cs) n =
     (let r = spec_buildWhere cs (Suc n) in ((template @ string_of_nat n) # fst r, v # snd r))"

definition spec_where :: "criterion list \<Rightarrow> where_statement" where
  "spec_where cs =
     (let r = spec_buildWhere cs 1
      in \<lparr>whereClause = ''WHERE '' @ js_join '' AND '' (fst r), whereValues = snd r\<rparr>)"

text \<open>A criterion is provided when its value is not \<open>undefined\<close>.\<close>

definition provided :: "jsval \<Rightarrow> bool" where
  "provided v = (v \<noteq> Undefined)"

text \<open>The value bound for a substring criterion: the text between two \<open>%\<close>.\<close>

definition substring_pattern :: "jsval \<Rightarrow> jsval" where
  "substring_pattern v = Str (''%'' @ js_toString v @ ''%'')"

definition spec_Job_criteria :: "jsval \<Rightarrow> jsval \<Rightarrow> jsval \<Rightarrow> jsval \<Rightarrow> criterion list" where
  "spec_Job_criteria minSalary hasEquity title companyHandle =
     [if provided minSalary then Param ''salary >= $'' minSalary else Inactive,
      if hasEquity = Bool True then Flag ''equity > 0'' else Inactive,
      if provided title then Param ''title ILIKE $'' (substring_pattern title) else Inactive,
      if provided companyHandle
      then Param ''company_handle ILIKE $'' (substring_pattern companyHandle) else Inactive]"

definition spec_Company_criteria :: "jsval \<Rightarrow> jsval \<Rightarrow> jsval \<Rightarrow> criterion list" where
  "spec_Company_criteria name min' max' =
     [if provided name then Param ''name ILIKE $'' (substring_pattern name) else Inactive,
      if provided min' then Param ''num_employees >= $'' min' else Inactive,
      if provided max' then Param ''num_employees <= $'' max' else Inactive]"

subsection \<open>The statements of an update\<close>



subsection \<open>Two database clients for examples\<close>

text \<open>
  A client that holds no rows: it answers every statement with no rows and keeps the list
  of the statements it was sent, with their bound values.
\<close>

definition recording_db :: "(string \<times> jsval list) list db" where
  "recording_db text params sent = (Inr [], sent @ [(text, params)])"


section \<open>Auxiliary facts\<close>

lemma string_of_nat_digits [simp]:
  "string_of_nat 0 = ''0''" "string_of_nat (Suc 0) = ''1''" "string_of_nat 2 = ''2''"
  "string_of_nat 3 = ''3''" "string_of_nat 4 = ''4''"
  "string_of_nat (Suc (Suc 0)) = ''2''" "string_of_nat (Suc (Suc (Suc 0))) = ''3''"
  by (simp_all add: string_of_nat.simps digit_char_def)

lemma digit_value_digit_char: "d < 10 \<Longrightarrow> digit_value (digit_char d) = d"
proof -
  assume "d < 10"
  then have "d \<in> {0, 1, 2, 3, 4, 5, 6, 7, 8, 9}" by auto
  then show ?thesis by (auto simp add: digit_char_def digit_value_def)
qed

text \<open>A position is rendered in decimal: reading the numeral back gives the position.\<close>

lemma nat_of_string_of_nat: "nat_of_string (string_of_nat n) = n"
proof (induction n rule: string_of_nat.induct)
  case (1 n)
  show ?case
  proof (cases "n < 10")
    case True
    then show ?thesis
      by (simp add: string_of_nat.simps [of n] nat_of_string_def digit_value_digit_char)
  next
    case False
    with 1 have "nat_of_string (string_of_nat (n div 10)) = n div 10" by simp
    with False show ?thesis
      by (simp add: string_of_nat.simps [of n] nat_of_string_def digit_value_digit_char)
  qed
qed

lemma string_of_nat_inj: "string_of_nat m = string_of_nat n \<Longrightarrow> m = n"
  by (metis nat_of_string_of_nat)




lemma resolved_name_empty [simp]: "resolved_name [] k = k"
  by (simp add: resolved_name_def)

lemma js_get_js_set: "js_get (js_set row k v) k = v"
  by (induction row) (auto simp add: js_get_def)

subsection \<open>The builders in closed form\<close>


lemma sqlForPartialUpdate_setCols_keys:
  "map fst F = map fst F' \<Longrightarrow>
     map_sum id setCols (sqlForPartialUpdate F M) = map_sum id setCols (sqlForPartialUpdate F' M)"
  by (simp add: sqlForPartialUpdate_def Object_keys_def Let_def)

lemma sqlForPartialUpdate_values:
  "sqlForPartialUpdate F M = Inr frag \<Longrightarrow> values' frag = map snd F"
  by (auto simp add: sqlForPartialUpdate_def Object_values_def Let_def split: if_splits)

lemma Company_sqlWhereBuilder_spec:
  "Company_sqlWhereBuilder name min' max' = spec_where (spec_Company_criteria name min' max')"
  by (simp add: Company_sqlWhereBuilder_def spec_where_def spec_Company_criteria_def provided_def
      substring_pattern_def push_param_def Let_def)

lemma Job_sqlWhereBuilder_spec:
  "Job_sqlWhereBuilder minSalary hasEquity title companyHandle =
     spec_where (spec_Job_criteria minSalary hasEquity title companyHandle)"
  by (simp add: Job_sqlWhereBuilder_def spec_where_def spec_Job_criteria_def provided_def
      substring_pattern_def push_param_def push_clause_def Let_def)

lemma Company_whereClause_provided:
  "provided name = provided name2 \<Longrightarrow> provided mn = provided mn2 \<Longrightarrow>
   provided mx = provided mx2 \<Longrightarrow>
   whereClause (Company_sqlWhereBuilder name mn mx) =
     whereClause (Company_sqlWhereBuilder name2 mn2 mx2)"
  by (simp add: Company_sqlWhereBuilder_def provided_def push_param_def Let_def)

lemma Job_whereClause_provided:
  "provided ms = provided ms2 \<Longrightarrow> (he = Bool True) = (he2 = Bool True) \<Longrightarrow>
   provided t = provided t2 \<Longrightarrow> provided ch = provided ch2 \<Longrightarrow>
   whereClause (Job_sqlWhereBuilder ms he t ch) = whereClause (Job_sqlWhereBuilder ms2 he2 t2 ch2)"
  by (simp add: Job_sqlWhereBuilder_def provided_def push_param_def push_clause_def Let_def)

lemma Company_whereValues:
  "whereValues (Company_sqlWhereBuilder name mn mx) =
     (if provided name then [substring_pattern name] else [])
     @ (if provided mn then [mn] else []) @ (if provided mx then [mx] else [])"
  by (simp add: Company_sqlWhereBuilder_def provided_def push_param_def Let_def
      substring_pattern_def)

lemma Job_whereValues:
  "whereValues (Job_sqlWhereBuilder ms he t ch) =
     (if provided ms then [ms] else [])
     @ (if provided t then [substring_pattern t] else [])
     @ (if provided ch then [substring_pattern ch] else [])"
  by (simp add: Job_sqlWhereBuilder_def provided_def push_param_def push_clause_def Let_def
      substring_pattern_def)

subsection \<open>The repositories in terms of the statement they send\<close>

lemma db_query_cases:
  "(case db_query db text params s of
      (Inl e, s') \<Rightarrow> (Inl e, s')
    | (Inr rows, s') \<Rightarrow> (Inr rows, s'))
   = db_query db text params s"
  by (simp split: prod.splits sum.splits)

lemma db_query_not_NotFound: "fst (db_query db text params s) \<noteq> Inl (NotFoundError msg)"
  by (simp add: db_query_def split: prod.splits sum.splits)

lemma db_query_Inr:
  "fst (db text params s) = Inr rows \<Longrightarrow>
     db_query db text params s = (Inr rows, snd (db text params s))"
  by (cases "db text params s") (auto simp add: db_query_def)

lemma Company_findAll_Some:
  "f \<noteq> [] \<Longrightarrow> Company_findAll db (Some f) s =
     (let ws = Company_sqlWhereBuilder
                 (js_get f ''name'') (js_get f ''minEmp'') (js_get f ''maxEmp'')
      in db_query db (Company_findAll_sql (whereClause ws)) (whereValues ws) s)"
  by (simp add: Company_findAll_def Object_keys_def Let_def db_query_cases)

lemma Job_findAll_Some:
  "f \<noteq> [] \<Longrightarrow> Job_findAll db (Some f) s =
     (let ws = Job_sqlWhereBuilder (js_get f ''minSalary'') (js_get f ''hasEquity'')
                 (js_get f ''title'') (js_get f ''companyHandle'')
      in db_query db (Job_findAll_sql (whereClause ws)) (whereValues ws) s)"
  by (simp add: Job_findAll_def Object_keys_def Let_def db_query_cases)








lemma Company_get_cases:
  "Company_get db handle s =
     (case db_query db Company_get_sql [handle] s of
        (Inl e, s1) \<Rightarrow> (Inl e, s1)
      | (Inr rows, s1) \<Rightarrow>
          (case Job_findAll db (Some [(''companyHandle'', handle)]) s1 of
             (jobsResult, s2) \<Rightarrow>
               (case rows of
                  [] \<Rightarrow> (Inl TypeError, s2)
                | row # rest \<Rightarrow> (Inr (js_set row ''jobs'' (Promise jobsResult)), s2))))"
  by (simp add: Company_get_def Let_def split: prod.splits sum.splits list.splits)

text \<open>
  The sibling \<open>Job.get\<close> tests the row before it uses it, and reports the missing job.
\<close>

lemma Job_get_missing_job:
  "fst (db Job_get_sql [id'] s) = Inr [] \<Longrightarrow>
     fst (Job_get db id' s) = Inl (NotFoundError (''There is no job with id: '' @ js_toString id'))"
  by (simp add: Job_get_def db_query_Inr)

section \<open>The partial-update builder\<close>




text \<open>
  C3. Whatever the field map, \<open>sqlForPartialUpdate\<close> rejects an object without keys with
  \<open>BadRequestError "No data"\<close>. Both \<open>update\<close> methods call it first: with empty data
  they fail with that error whatever the database client is, and the store is the one
  they started from.
\<close>

theorem sqlForPartialUpdate_no_data:
  "sqlForPartialUpdate [] M = Inl (BadRequestError ''No data'')
   \<and> Job_update db id' [] s = (Inl (BadRequestError ''No data''), s)
   \<and> Company_update db handle [] s = (Inl (BadRequestError ''No data''), s)"
  by (simp add: sqlForPartialUpdate_def Object_keys_def Job_update_def Company_update_def)

section \<open>Fragment text and caller-supplied values\<close>

text \<open>
  C2. The text of a fragment does not depend on the values the caller supplies. Two
  objects with the same keys give \<open>sqlForPartialUpdate\<close> the same text (or the same
  error), whatever their values; two calls of a where-builder whose arguments are
  provided at the same places (and agree on whether \<open>hasEquity\<close> is \<open>true\<close>) give the
  same text. The values come back only in the value sequence: the values of the object
  in key order, and for the where-builders the provided values in criterion order, the
  substring criteria between two \<open>%\<close>.
\<close>

theorem fragment_text_independent_of_values:
  "(map fst F = map fst F' \<longrightarrow>
      map_sum id setCols (sqlForPartialUpdate F M) = map_sum id setCols (sqlForPartialUpdate F' M))
   \<and> (\<forall>frag. sqlForPartialUpdate F M = Inr frag \<longrightarrow> values' frag = map snd F)
   \<and> (provided name = provided name2 \<and> provided mn = provided mn2 \<and> provided mx = provided mx2
        \<longrightarrow> whereClause (Company_sqlWhereBuilder name mn mx) =
              whereClause (Company_sqlWhereBuilder name2 mn2 mx2))
   \<and> whereValues (Company_sqlWhereBuilder name mn mx) =
        (if provided name then [substring_pattern name] else [])
        @ (if provided mn then [mn] else []) @ (if provided mx then [mx] else [])
   \<and> (provided ms = provided ms2 \<and> (he = Bool True) = (he2 = Bool True)
        \<and> provided t = provided t2 \<and> provided ch = provided ch2
        \<longrightarrow> whereClause (Job_sqlWhereBuilder ms he t ch) =
              whereClause (Job_sqlWhereBuilder ms2 he2 t2 ch2))
   \<and> whereValues (Job_sqlWhereBuilder ms he t ch) =
        (if provided ms then [ms] else [])
        @ (if provided t then [substring_pattern t] else [])
        @ (if provided ch then [substring_pattern ch] else [])"
  using sqlForPartialUpdate_setCols_keys [of F F' M] sqlForPartialUpdate_values [of F M]
    Company_whereClause_provided [of name name2 mn mn2 mx mx2] Company_whereValues [of name mn mx]
    Job_whereClause_provided [of ms ms2 he he2 t t2 ch ch2] Job_whereValues [of ms he t ch]
  by blast

text \<open>
  Values made of SQL metacharacters, among them the title of the injection test, give
  the text of harmless values and are found in the value sequence.
\<close>

theorem fragment_text_independent_of_values_witness:
  \<open>map_sum id setCols (sqlForPartialUpdate [(''title'', Str ''x", id=$1 --'')] []) =
     map_sum id setCols (sqlForPartialUpdate [(''title'', Str ''Job1'')] [])
   \<and> whereClause (Company_sqlWhereBuilder (Str ''%' OR 1=1 --'') Undefined
        (Str ''3; DROP TABLE companies'')) =
     whereClause (Company_sqlWhereBuilder (Str ''net'') Undefined (Num 3))
   \<and> whereClause (Job_sqlWhereBuilder Undefined Null (Str ''';SELECT * FROM jobs;'') Undefined) =
     whereClause (Job_sqlWhereBuilder Undefined (Bool False) (Str ''Job1'') Undefined)
   \<and> whereValues (Job_sqlWhereBuilder Undefined Null (Str ''';SELECT * FROM jobs;'') Undefined) =
     [Str ''%';SELECT * FROM jobs;%'']\<close>
  using fragment_text_independent_of_values
    [of \<open>[(''title'', Str ''x", id=$1 --'')]\<close> \<open>[(''title'', Str ''Job1'')]\<close> \<open>[]\<close>
        \<open>Str ''%' OR 1=1 --''\<close> \<open>Str ''net''\<close> Undefined Undefined
        \<open>Str ''3; DROP TABLE companies''\<close> \<open>Num 3\<close>
        Undefined Undefined Null \<open>Bool False\<close> \<open>Str ''';SELECT * FROM jobs;''\<close> \<open>Str ''Job1''\<close>
        Undefined Undefined]
  by (simp add: provided_def substring_pattern_def)

section \<open>The where-builders\<close>

text \<open>
  C4. The where-builder of jobs is the specification's predicate builder on the four
  criteria \<open>minSalary\<close>, \<open>hasEquity\<close>, \<open>title\<close>, \<open>companyHandle\<close>, in this order: a
  provided \<open>minSalary\<close> gives \<open>salary >= $n\<close> and binds the value, a provided \<open>title\<close>
  gives \<open>title ILIKE $n\<close> and binds \<open>%title%\<close>, a provided \<open>companyHandle\<close> gives
  \<open>company_handle ILIKE $n\<close> and binds \<open>%companyHandle%\<close>, each at the next parameter
  position; \<open>hasEquity\<close> gives the clause \<open>equity > 0\<close> exactly when it is the boolean
  \<open>true\<close>, and takes no position. The clauses are joined with \<open>" AND "\<close> after
  \<open>"WHERE "\<close>.
\<close>

theorem Job_sqlWhereBuilder_criteria:
  "Job_sqlWhereBuilder minSalary hasEquity title companyHandle =
     spec_where (spec_Job_criteria minSalary hasEquity title companyHandle)"
  by (rule Job_sqlWhereBuilder_spec)

text \<open>All four criteria at once, and \<open>hasEquity\<close> given as something other than \<open>true\<close>.\<close>

theorem Job_sqlWhereBuilder_criteria_witness:
  "Job_sqlWhereBuilder (Num 150) (Bool True) (Str ''Job'') (Str ''c1'') =
     \<lparr>whereClause =
        ''WHERE salary >= $1 AND equity > 0 AND title ILIKE $2 AND company_handle ILIKE $3'',
      whereValues = [Num 150, Str ''%Job%'', Str ''%c1%'']\<rparr>
   \<and> Job_sqlWhereBuilder Undefined (Str ''true'') (Str ''Job'') Undefined =
     \<lparr>whereClause = ''WHERE title ILIKE $1'', whereValues = [Str ''%Job%'']\<rparr>"
  using Job_sqlWhereBuilder_criteria [of "Num 150" "Bool True" "Str ''Job''" "Str ''c1''"]
    Job_sqlWhereBuilder_criteria [of Undefined "Str ''true''" "Str ''Job''" Undefined]
  by (simp add: spec_where_def spec_Job_criteria_def provided_def substring_pattern_def)

text \<open>
  C6. The specification asks a where-builder with no active criterion for an empty
  fragment. The builders do not return one: with every criterion absent (and \<open>hasEquity\<close>
  \<open>false\<close>) they return the text \<open>"WHERE "\<close> with no predicate, and \<open>Job.findAll\<close>
  sends a statement with that dangling \<open>WHERE\<close>. No call of either builder returns an
  empty fragment.
\<close>

theorem where_builders_dangling_where:
  "Job_sqlWhereBuilder Undefined (Bool False) Undefined Undefined =
     \<lparr>whereClause = ''WHERE '', whereValues = []\<rparr>
   \<and> Company_sqlWhereBuilder Undefined Undefined Undefined =
     \<lparr>whereClause = ''WHERE '', whereValues = []\<rparr>
   \<and> Job_findAll recording_db (Some [(''hasEquity'', Bool False)]) [] =
     (Inr [], [(Job_findAll_sql ''WHERE '', [])])
   \<and> whereClause (Job_sqlWhereBuilder minSalary hasEquity title companyHandle) \<noteq> []
   \<and> whereClause (Company_sqlWhereBuilder name min' max') \<noteq> []"
  by (simp add: Job_findAll_Some Job_sqlWhereBuilder_def Company_sqlWhereBuilder_def Let_def
      js_get_def db_query_def recording_db_def)

section \<open>Company.findAll\<close>

text \<open>
  C5, as the code has it. \<open>Company.findAll\<close> with a non-empty filter object sends the
  statement whose where-clause is the specification's predicate builder on the criteria
  name, minimum and maximum of employees, in this order, read from the keys \<open>name\<close>,
  \<open>minEmp\<close> and \<open>maxEmp\<close> of the object: \<open>name ILIKE $n\<close> with \<open>%name%\<close> bound,
  \<open>num_employees >= $n\<close>, \<open>num_employees <= $n\<close>, joined with \<open>" AND "\<close>, each provided
  criterion at the next position.
\<close>

theorem Company_findAll_criteria:
  assumes "f \<noteq> []"
  shows "Company_findAll db (Some f) s =
     (let ws = spec_where (spec_Company_criteria
                 (js_get f ''name'') (js_get f ''minEmp'') (js_get f ''maxEmp''))
      in db_query db (Company_findAll_sql (whereClause ws)) (whereValues ws) s)"
  using assms by (simp add: Company_findAll_Some Company_sqlWhereBuilder_spec)

theorem Company_findAll_criteria_witness:
  "Company_findAll recording_db
     (Some [(''minEmp'', Num 2), (''maxEmp'', Num 3), (''name'', Str ''net'')]) [] =
   (Inr [], [(Company_findAll_sql
        ''WHERE name ILIKE $1 AND num_employees >= $2 AND num_employees <= $3'',
      [Str ''%net%'', Num 2, Num 3])])"
  using Company_findAll_criteria
      [of "[(''minEmp'', Num 2), (''maxEmp'', Num 3), (''name'', Str ''net'')]" recording_db "[]"]
  by (simp add: spec_where_def spec_Company_criteria_def provided_def substring_pattern_def
      js_get_def db_query_def recording_db_def)

text \<open>
  With the keys as the specification names them the statement fails: a filter object
  that provides \<open>minEmployees\<close> gets no predicate on \<open>num_employees\<close> and binds no value.
\<close>

theorem Company_findAll_minEmployees_counterexample:
  "Company_findAll recording_db (Some [(''minEmployees'', Num 5)]) [] =
     (Inr [], [(Company_findAll_sql ''WHERE '', [])])
   \<and> Company_findAll recording_db (Some [(''minEmployees'', Num 5)]) [] \<noteq>
     (let ws = spec_where (spec_Company_criteria
                 (js_get [(''minEmployees'', Num 5)] ''name'')
                 (js_get [(''minEmployees'', Num 5)] ''minEmployees'')
                 (js_get [(''minEmployees'', Num 5)] ''maxEmployees''))
      in db_query recording_db (Company_findAll_sql (whereClause ws)) (whereValues ws) [])"
  by (simp add: Company_findAll_Some Company_sqlWhereBuilder_spec
      spec_where_def spec_Company_criteria_def provided_def substring_pattern_def
      js_get_def db_query_def recording_db_def)

text \<open>
  C10. \<open>Company.findAll\<close> reads the bounds on the number of employees from the keys
  \<open>minEmp\<close> and \<open>maxEmp\<close>: a provided \<open>minEmp\<close> gives \<open>num_employees >= $n\<close>, a provided
  \<open>maxEmp\<close> gives \<open>num_employees <= $n\<close>. No other key but \<open>name\<close> is read: two non-empty
  filter objects that agree on \<open>name\<close>, \<open>minEmp\<close> and \<open>maxEmp\<close> send the same statement.
  Keys \<open>minEmployees\<close> and \<open>maxEmployees\<close> only make the object non-empty, so that the
  where-builder is called with every criterion \<open>undefined\<close>.
\<close>

theorem Company_findAll_reads_minEmp_maxEmp:
  "(f \<noteq> [] \<longrightarrow>
      Company_findAll db (Some f) s =
        (let ws = Company_sqlWhereBuilder
                    (js_get f ''name'') (js_get f ''minEmp'') (js_get f ''maxEmp'')
         in db_query db (Company_findAll_sql (whereClause ws)) (whereValues ws) s))
   \<and> (provided v \<longrightarrow>
        Company_findAll db (Some [(''minEmp'', v)]) s =
          db_query db (Company_findAll_sql ''WHERE num_employees >= $1'') [v] s)
   \<and> (provided v \<longrightarrow>
        Company_findAll db (Some [(''maxEmp'', v)]) s =
          db_query db (Company_findAll_sql ''WHERE num_employees <= $1'') [v] s)
   \<and> (f \<noteq> [] \<and> f' \<noteq> [] \<and> js_get f ''name'' = js_get f' ''name''
        \<and> js_get f ''minEmp'' = js_get f' ''minEmp'' \<and> js_get f ''maxEmp'' = js_get f' ''maxEmp''
        \<longrightarrow> Company_findAll db (Some f) s = Company_findAll db (Some f') s)
   \<and> Company_findAll db (Some [(''minEmployees'', v1), (''maxEmployees'', v2)]) s =
        db_query db (Company_findAll_sql ''WHERE '') [] s"
  by (simp add: Company_findAll_Some Company_sqlWhereBuilder_spec spec_where_def
      spec_Company_criteria_def provided_def js_get_def)

theorem Company_findAll_reads_minEmp_maxEmp_witness:
  "Company_findAll recording_db (Some [(''minEmp'', Num 2)]) [] =
     (Inr [], [(Company_findAll_sql ''WHERE num_employees >= $1'', [Num 2])])
   \<and> Company_findAll recording_db (Some [(''maxEmp'', Num 2)]) [] =
     (Inr [], [(Company_findAll_sql ''WHERE num_employees <= $1'', [Num 2])])
   \<and> Company_findAll recording_db (Some [(''minEmployees'', Num 2), (''maxEmp'', Num 3)]) [] =
     Company_findAll recording_db (Some [(''maxEmp'', Num 3)]) []
   \<and> Company_findAll recording_db (Some [(''minEmployees'', Num 2), (''maxEmployees'', Num 3)]) [] =
     (Inr [], [(Company_findAll_sql ''WHERE '', [])])"
  using Company_findAll_reads_minEmp_maxEmp
      [of "[(''minEmployees'', Num 2), (''maxEmp'', Num 3)]" recording_db "[]" "Num 2"
          "[(''maxEmp'', Num 3)]" "Num 2" "Num 3"]
  by (auto simp add: provided_def js_get_def db_query_def recording_db_def)

section \<open>Company.get\<close>

text \<open>
  C7. The specification asks \<open>Company.get\<close> for \<open>NotFoundError\<close> when no company has the
  handle, and for the jobs of the company as a nested sequence. The code writes the
  property \<open>jobs\<close> before it tests the row, and does not await \<open>Job.findAll\<close>: whatever
  the database client, \<open>Company.get\<close> never fails with \<open>NotFoundError\<close>; when the
  statement finds no row it fails with \<open>TypeError\<close>; and when it returns a company, the
  property \<open>jobs\<close> of that company is a promise, not a sequence.
\<close>

theorem Company_get_missing_company:
  "(\<forall>msg. fst (Company_get db handle s) \<noteq> Inl (NotFoundError msg))
   \<and> (fst (db Company_get_sql [handle] s) = Inr [] \<longrightarrow>
        fst (Company_get db handle s) = Inl TypeError)
   \<and> (\<forall>company. fst (Company_get db handle s) = Inr company \<longrightarrow>
        (\<exists>r. js_get company ''jobs'' = Promise r))"
proof (intro conjI allI impI)
  fix msg
  show "fst (Company_get db handle s) \<noteq> Inl (NotFoundError msg)"
    using db_query_not_NotFound [of db Company_get_sql "[handle]" s msg]
    by (auto simp add: Company_get_cases split: prod.splits sum.splits list.splits)
next
  assume "fst (db Company_get_sql [handle] s) = Inr []"
  then show "fst (Company_get db handle s) = Inl TypeError"
    by (simp add: Company_get_cases db_query_Inr split: prod.splits)
next
  fix company
  assume "fst (Company_get db handle s) = Inr company"
  then show "\<exists>r. js_get company ''jobs'' = Promise r"
    by (auto simp add: Company_get_cases js_get_js_set split: prod.splits sum.splits list.splits)
qed

text \<open>A handle no company has, on a database without rows.\<close>

theorem Company_get_missing_company_witness:
  "fst (Company_get recording_db (Str ''nope'') []) = Inl TypeError
   \<and> (\<forall>msg. fst (Company_get recording_db (Str ''nope'') []) \<noteq> Inl (NotFoundError msg))"
  using Company_get_missing_company [of recording_db "Str ''nope''" "[]"]
  by (simp add: recording_db_def)

section \<open>update\<close>



section \<open>findAll\<close>


end
